theory Spec2Isabelle
  imports Complex_Main "HOL-Library.Sublist"
begin

section \<open>JavaScript values\<close>

text \<open>
  The service in \<^verbatim>\<open>src/backend/src/services/llmService.ts\<close> builds and returns plain
  JavaScript values: whatever \<^verbatim>\<open>JSON.parse\<close> yields, or an object literal written in one
  of the fallback methods. A value is modelled as a tree, an object as the list of its
  properties in insertion order. A \<^verbatim>\<open>number\<close> is modelled by a real; the parameters
  \<^verbatim>\<open>weeks\<close> and \<^verbatim>\<open>timePerWeek\<close> range over the integers (NaN, the infinities and
  fractions are outside the model).
\<close>

datatype jsval =
    JNull
  | JBool bool
  | JNumber real
  | JString string
  | JArray "jsval list"
  | JObject "(string \<times> jsval) list"

text \<open>Property access \<^verbatim>\<open>v.k\<close>; \<open>None\<close> stands for \<^verbatim>\<open>undefined\<close>.\<close>

fun field :: "string \<Rightarrow> jsval \<Rightarrow> jsval option" where
  "field k (JObject kvs) = map_of kvs k"
| "field k v = None"

text \<open>
  Template literals print a number with \<^verbatim>\<open>Number::toString\<close>, which for an integer of
  magnitude below \<open>10\<^sup>2\<^sup>1\<close> is its decimal numeral.
\<close>

definition digit :: "nat \<Rightarrow> char" where
  "digit d = ''0123456789'' ! d"

fun toStringNat :: "nat \<Rightarrow> string" where
  "toStringNat n =
     (if n < 10 then [digit n] else toStringNat (n div 10) @ [digit (n mod 10)])"

declare toStringNat.simps [simp del]

definition toString :: "int \<Rightarrow> string" where
  "toString i = (if i < 0 then ''-'' @ toStringNat (nat (- i)) else toStringNat (nat i))"

section \<open>The service object and its construction\<close>

record LLMService =
  apiUrl :: string
  apiKey :: string
  modelName :: string

text \<open>
  \<^verbatim>\<open>process.env.X || d\<close>: the default \<open>d\<close> is taken when the variable is unset or is the
  empty string.
\<close>

definition orElse :: "string option \<Rightarrow> string \<Rightarrow> string" where
  "orElse v d = (case v of None \<Rightarrow> d | Some s \<Rightarrow> if s = [] then d else s)"

text \<open>
  The constructor reads three environment variables and passes one object to
  \<^verbatim>\<open>console.log\<close>. The model returns the constructed service together with the logged
  object.
\<close>

definition constructor :: "(string \<rightharpoonup> string) \<Rightarrow> LLMService \<times> jsval" where
  "constructor env =
     (let this = \<lparr> apiUrl = orElse (env ''AI_MODEL_API_URL'')
                                 ''https://openrouter.ai/api/v1/chat/completions'',
                   apiKey = orElse (env ''AI_MODEL_API_KEY'') '''',
                   modelName = orElse (env ''AI_MODEL_NAME'') ''gpt-3.5-turbo'' \<rparr>
      in (this, JObject [(''URL'', JString (apiUrl this)),
                         (''KEY'', JString (apiKey this)),
                         (''MODEL'', JString (modelName this))]))"

section \<open>The call to the model provider\<close>

record message =
  content :: string

record choice =
  message :: message

record LLMResponse =
  choices :: "choice list"

text \<open>What can be caught in \<^verbatim>\<open>callLLM\<close>: the rejection of \<^verbatim>\<open>axios.post\<close> (a network
  error or a non-2xx status), or the \<^verbatim>\<open>TypeError\<close> of reading \<^verbatim>\<open>choices[0].message\<close>
  when \<^verbatim>\<open>choices\<close> is empty.\<close>

datatype thrown = AxiosError string | TypeError

text \<open>What a public method can throw to its caller.\<close>

datatype error = Error string

text \<open>
  \<^verbatim>\<open>axios.post\<close> belongs to a library outside the repository: it is a parameter, a
  function of the URL, the request body and the headers that either rejects or resolves
  with the response data.
\<close>

type_synonym transport = "string \<Rightarrow> jsval \<Rightarrow> (string \<times> string) list \<Rightarrow> thrown + LLMResponse"

text \<open>
  Every operation returns, next to its outcome, the trace of the calls it made: the HTTP
  request, \<^verbatim>\<open>console.error\<close>, \<^verbatim>\<open>JSON.parse\<close>, and the fallback methods.
\<close>

datatype fallback =
    FallbackCurriculum | FallbackLesson | FallbackQuiz | FallbackResources | FallbackProjects

datatype event =
    AxiosPost string jsval "(string \<times> string) list"
  | ConsoleError string thrown
  | JSONParse string
  | Invoked fallback

text \<open>The request body and the headers that \<^verbatim>\<open>callLLM\<close> passes to \<^verbatim>\<open>axios.post\<close>.\<close>

definition requestBody :: "LLMService \<Rightarrow> string \<Rightarrow> jsval" where
  "requestBody this prompt =
     JObject [(''model'', JString (modelName this)),
              (''messages'', JArray [JObject [(''role'', JString ''user''),
                                              (''content'', JString prompt)]]),
              (''max_tokens'', JNumber 2000),
              (''temperature'', JNumber 0.7)]"

definition requestHeaders :: "LLMService \<Rightarrow> (string \<times> string) list" where
  "requestHeaders this =
     [(''Authorization'', ''Bearer '' @ apiKey this),
      (''Content-Type'', ''application/json''),
      (''HTTP-Referer'', ''http://localhost:3009''),
      (''X-Title'', ''SkillFoundry'')]"

text \<open>
  The whole body of \<^verbatim>\<open>callLLM\<close> is one \<^verbatim>\<open>try\<close> block: whatever is thrown in it is
  logged and replaced by the one \<^verbatim>\<open>Error('Failed to generate content')\<close>.
\<close>

definition callLLM :: "LLMService \<Rightarrow> transport \<Rightarrow> string \<Rightarrow> event list \<times> (error + string)" where
  "callLLM this post prompt =
     (let url = apiUrl this;
          body = requestBody this prompt;
          headers = requestHeaders this
      in case post url body headers of
           Inl err \<Rightarrow>
             ([AxiosPost url body headers, ConsoleError ''LLM API Error:'' err],
              Inl (Error ''Failed to generate content''))
         | Inr response \<Rightarrow>
             (case choices response of
                [] \<Rightarrow>
                  ([AxiosPost url body headers, ConsoleError ''LLM API Error:'' TypeError],
                   Inl (Error ''Failed to generate content''))
              | c # rest \<Rightarrow> ([AxiosPost url body headers], Inr (content (message c)))))"

section \<open>Fallback methods\<close>

text \<open>One pass of the loop body of \<^verbatim>\<open>getFallbackCurriculum\<close>: the object pushed for week \<open>i\<close>.\<close>

definition weeklyPlan :: "string \<Rightarrow> int \<Rightarrow> jsval" where
  "weeklyPlan skill i =
     JObject [(''week'', JNumber (of_int i)),
              (''topics'', JArray [JString ''topic-1'']),
              (''estimatedHours'', JNumber 5),
              (''goals'', JArray [JString (''Week '' @ toString i @ '': Learn '' @ skill @ '' concepts'')])]"

text \<open>\<^verbatim>\<open>for (let i = 1; i <= weeks; i++) weeklyRoadmap.push({...})\<close>, from the state \<open>(i, weeklyRoadmap)\<close>.\<close>

function roadmapLoop :: "string \<Rightarrow> int \<Rightarrow> int \<Rightarrow> jsval list \<Rightarrow> jsval list" where
  "roadmapLoop skill weeks i weeklyRoadmap =
     (if i \<le> weeks
      then roadmapLoop skill weeks (i + 1) (weeklyRoadmap @ [weeklyPlan skill i])
      else weeklyRoadmap)"
  by pat_completeness auto
termination
  by (relation "measure (\<lambda>(skill, weeks, i, weeklyRoadmap). nat (weeks + 1 - i))") auto

declare roadmapLoop.simps [simp del]

text \<open>A parameter with a default value: \<open>None\<close> is the omitted argument.\<close>

definition orDefault :: "int option \<Rightarrow> int \<Rightarrow> int" where
  "orDefault a d = (case a of None \<Rightarrow> d | Some n \<Rightarrow> n)"

definition getFallbackCurriculum :: "string \<Rightarrow> string \<Rightarrow> int option \<Rightarrow> jsval" where
  "getFallbackCurriculum skill level weeksArg =
     (let weeks = orDefault weeksArg 12;
          weeklyRoadmap = roadmapLoop skill weeks 1 []
      in JObject
           [(''modules'', JArray [JObject
               [(''id'', JString ''module-1''),
                (''title'', JString (skill @ '' Fundamentals'')),
                (''description'', JString (''Core concepts and basics of '' @ skill)),
                (''estimatedWeeks'', JNumber (of_int weeks)),
                (''topics'', JArray [JObject
                   [(''id'', JString ''topic-1''),
                    (''title'', JString ''Introduction''),
                    (''description'', JString (''Getting started with '' @ skill)),
                    (''difficulty'', JString level),
                    (''subtopics'', JArray [JObject
                       [(''id'', JString ''subtopic-1''),
                        (''title'', JString ''Overview''),
                        (''description'', JString (''What is '' @ skill @ ''?'')),
                        (''estimatedHours'', JNumber 2)]])]])]]),
            (''weeklyRoadmap'', JArray weeklyRoadmap)])"

definition getFallbackLesson :: "string \<Rightarrow> jsval" where
  "getFallbackLesson title =
     JObject
       [(''title'', JString title),
        (''objective'', JString (''Learn about '' @ title)),
        (''content'', JString (''This lesson covers the fundamentals of '' @ title @
            ''. You'' @ [CHR 0x27] @ ''ll learn key concepts and practical applications.'')),
        (''examples'', JArray [JString (''Example 1: Basic '' @ title @ '' usage''),
                               JString (''Example 2: Advanced '' @ title @ '' techniques'')]),
        (''practiceTask'', JString (''Practice implementing '' @ title @ '' concepts''))]"

definition getFallbackQuiz :: "string \<Rightarrow> jsval" where
  "getFallbackQuiz title =
     JArray [JObject
       [(''id'', JString ''q1''),
        (''text'', JString (''What is the main purpose of '' @ title @ ''?'')),
        (''options'', JArray [JString ''Option A'', JString ''Option B'',
                              JString ''Option C'', JString ''Option D'']),
        (''correctAnswer'', JNumber 0),
        (''explanation'', JString ''This is the correct answer because...'')]]"

definition getFallbackResources :: "string \<Rightarrow> jsval" where
  "getFallbackResources topic =
     JArray [JObject
       [(''topicId'', JString ''topic-1''),
        (''type'', JString ''article''),
        (''title'', JString (topic @ '' Guide'')),
        (''level'', JString ''beginner''),
        (''reason'', JString ''Comprehensive introduction''),
        (''description'', JString (''Learn '' @ topic @ '' fundamentals'')),
        (''url'', JString ''#'')]]"

definition getFallbackProjects :: "string \<Rightarrow> jsval" where
  "getFallbackProjects module' =
     JArray [JObject
       [(''title'', JString (module' @ '' Project'')),
        (''description'', JString (''Build a practical project using '' @ module' @ '' concepts'')),
        (''requirements'', JArray [JString ''Feature 1'', JString ''Feature 2'']),
        (''techStack'', JArray [JString ''Technology 1'', JString ''Technology 2'']),
        (''skillsDemonstrated'', JArray [JString ''Skill 1'', JString ''Skill 2'']),
        (''difficulty'', JString ''beginner'')]]"

section \<open>Prompts\<close>

text \<open>The template literals of the five public methods, line by line.\<close>

definition curriculumPrompt :: "string \<Rightarrow> string \<Rightarrow> int \<Rightarrow> int \<Rightarrow> string" where
  \<open>curriculumPrompt skill level timePerWeek weeks =
     ''Create a comprehensive '' @ toString weeks @ ''-week curriculum for learning "'' @ skill @
       ''" at '' @ level @ '' level with '' @ toString timePerWeek @ '' hours per week.\<newline>'' @
     ''\<newline>'' @
     ''Return a JSON object with:\<newline>'' @
     ''1. "modules": Array of modules, each with:\<newline>'' @
     ''   - id: unique string\<newline>'' @
     ''   - title: module name\<newline>'' @
     ''   - description: brief description\<newline>'' @
     ''   - estimatedWeeks: number of weeks\<newline>'' @
     ''   - topics: array of topics, each with:\<newline>'' @
     ''     - id: unique string\<newline>'' @
     ''     - title: topic name\<newline>'' @
     ''     - description: brief description\<newline>'' @
     ''     - difficulty: "beginner"|"intermediate"|"advanced"\<newline>'' @
     ''     - subtopics: array with id, title, description, estimatedHours\<newline>'' @
     ''\<newline>'' @
     ''2. "weeklyRoadmap": Array of exactly '' @ toString weeks @ '' weekly plans with:\<newline>'' @
     ''   - week: number (1 to '' @ toString weeks @ '')\<newline>'' @
     ''   - topics: array of topic IDs to cover\<newline>'' @
     ''   - estimatedHours: total hours for the week\<newline>'' @
     ''   - goals: array of learning goals\<newline>'' @
     ''\<newline>'' @
     ''IMPORTANT: Create exactly '' @ toString weeks @
       '' weeks, no more, no less. Distribute all topics across these '' @ toString weeks @
       '' weeks.\<newline>'' @
     ''Make it practical and progressive. Focus on hands-on learning.''\<close>

definition lessonPrompt :: "string \<Rightarrow> string \<Rightarrow> string \<Rightarrow> string" where
  \<open>lessonPrompt subtopicTitle skill level =
     ''Create a lesson for "'' @ subtopicTitle @ ''" in '' @ skill @ '' for '' @ level @
       '' level.\<newline>'' @
     ''\<newline>'' @
     ''Return JSON with:\<newline>'' @
     ''- title: lesson title\<newline>'' @
     ''- objective: what student will learn\<newline>'' @
     ''- content: detailed explanation (300-500 words)\<newline>'' @
     ''- examples: array of 2-3 practical examples\<newline>'' @
     ''- practiceTask: hands-on task for the student\<newline>'' @
     ''\<newline>'' @
     ''Make it engaging and practical.''\<close>

text \<open>\<^verbatim>\<open>content.substring(0, 500)\<close> is the first 500 characters, or all of a shorter string.\<close>

definition quizPrompt :: "string \<Rightarrow> string \<Rightarrow> string" where
  \<open>quizPrompt lessonTitle content' =
     ''Create 5 multiple choice questions for a lesson titled "'' @ lessonTitle @ ''".\<newline>'' @
     ''\<newline>'' @
     ''Return JSON array of questions, each with:\<newline>'' @
     ''- id: unique string\<newline>'' @
     ''- text: question text\<newline>'' @
     ''- options: array of 4 answer choices\<newline>'' @
     ''- correctAnswer: index (0-3) of correct answer\<newline>'' @
     ''- explanation: why the answer is correct\<newline>'' @
     ''\<newline>'' @
     ''Base questions on this content: '' @ take 500 content' @ ''...''\<close>

definition resourcesPrompt :: "string \<Rightarrow> string \<Rightarrow> string \<Rightarrow> string" where
  \<open>resourcesPrompt topicTitle skill level =
     ''Suggest 8-10 learning resources for "'' @ topicTitle @ ''" in '' @ skill @ '' for '' @ level @
       '' level.\<newline>'' @
     ''\<newline>'' @
     ''Return JSON array with mix of books, courses, articles, and videos. Each resource:\<newline>'' @
     ''- type: "book"|"course"|"article"|"video"\<newline>'' @
     ''- title: resource title\<newline>'' @
     ''- authorOrSource: author or platform name\<newline>'' @
     ''- level: "beginner"|"intermediate"|"advanced"\<newline>'' @
     ''- estimatedTime: time to complete\<newline>'' @
     ''- reason: why recommended (1 sentence)\<newline>'' @
     ''- description: brief description\<newline>'' @
     ''- url: valid URL or "#" if no valid URL available\<newline>'' @
     ''\<newline>'' @
     ''IMPORTANT: Only provide real, valid URLs. If you don'' @ [CHR 0x27] @
       ''t have a valid URL, use "#" instead. Do not use placeholder URLs like example.com.\<newline>'' @
     ''Include both free and paid options.''\<close>

definition projectsPrompt :: "string \<Rightarrow> string \<Rightarrow> string \<Rightarrow> string" where
  \<open>projectsPrompt moduleTitle skill level =
     ''Create 2-3 project ideas for "'' @ moduleTitle @ ''" in '' @ skill @ '' for '' @ level @
       '' level.\<newline>'' @
     ''\<newline>'' @
     ''Return JSON array of projects, each with:\<newline>'' @
     ''- title: project name\<newline>'' @
     ''- description: what to build (2-3 sentences)\<newline>'' @
     ''- requirements: array of key features\<newline>'' @
     ''- techStack: array of technologies to use\<newline>'' @
     ''- skillsDemonstrated: array of skills this project shows\<newline>'' @
     ''- difficulty: "beginner"|"intermediate"|"advanced"\<newline>'' @
     ''\<newline>'' @
     ''Make projects practical and portfolio-worthy.''\<close>

section \<open>The five public methods\<close>

text \<open>
  \<^verbatim>\<open>JSON.parse\<close> is a built-in of the language: it is a parameter, \<open>None\<close> when it throws
  its \<^verbatim>\<open>SyntaxError\<close>. The \<^verbatim>\<open>await this.callLLM(prompt)\<close> stands outside the
  \<^verbatim>\<open>try\<close> block, so a rejection of \<^verbatim>\<open>callLLM\<close> leaves the method; the \<^verbatim>\<open>catch\<close>
  clause covers \<^verbatim>\<open>JSON.parse\<close> only.
\<close>

type_synonym parser = "string \<Rightarrow> jsval option"

type_synonym outcome = "event list \<times> (error + jsval)"

definition generateCurriculum ::
  "LLMService \<Rightarrow> transport \<Rightarrow> parser \<Rightarrow> string \<Rightarrow> string \<Rightarrow> int \<Rightarrow> int option \<Rightarrow> outcome" where
  "generateCurriculum this post parse skill level timePerWeek weeksArg =
     (let weeks = orDefault weeksArg 12;
          prompt = curriculumPrompt skill level timePerWeek weeks
      in case callLLM this post prompt of
           (tr, Inl e) \<Rightarrow> (tr, Inl e)
         | (tr, Inr response) \<Rightarrow>
             (case parse response of
                Some v \<Rightarrow> (tr @ [JSONParse response], Inr v)
              | None \<Rightarrow>
                  (tr @ [JSONParse response, Invoked FallbackCurriculum],
                   Inr (getFallbackCurriculum skill level (Some weeks)))))"

definition generateLesson ::
  "LLMService \<Rightarrow> transport \<Rightarrow> parser \<Rightarrow> string \<Rightarrow> string \<Rightarrow> string \<Rightarrow> outcome" where
  "generateLesson this post parse subtopicTitle skill level =
     (let prompt = lessonPrompt subtopicTitle skill level
      in case callLLM this post prompt of
           (tr, Inl e) \<Rightarrow> (tr, Inl e)
         | (tr, Inr response) \<Rightarrow>
             (case parse response of
                Some v \<Rightarrow> (tr @ [JSONParse response], Inr v)
              | None \<Rightarrow>
                  (tr @ [JSONParse response, Invoked FallbackLesson],
                   Inr (getFallbackLesson subtopicTitle))))"

definition generateQuiz ::
  "LLMService \<Rightarrow> transport \<Rightarrow> parser \<Rightarrow> string \<Rightarrow> string \<Rightarrow> outcome" where
  "generateQuiz this post parse lessonTitle content' =
     (let prompt = quizPrompt lessonTitle content'
      in case callLLM this post prompt of
           (tr, Inl e) \<Rightarrow> (tr, Inl e)
         | (tr, Inr response) \<Rightarrow>
             (case parse response of
                Some v \<Rightarrow> (tr @ [JSONParse response], Inr v)
              | None \<Rightarrow>
                  (tr @ [JSONParse response, Invoked FallbackQuiz],
                   Inr (getFallbackQuiz lessonTitle))))"

definition generateResources ::
  "LLMService \<Rightarrow> transport \<Rightarrow> parser \<Rightarrow> string \<Rightarrow> string \<Rightarrow> string \<Rightarrow> outcome" where
  "generateResources this post parse topicTitle skill level =
     (let prompt = resourcesPrompt topicTitle skill level
      in case callLLM this post prompt of
           (tr, Inl e) \<Rightarrow> (tr, Inl e)
         | (tr, Inr response) \<Rightarrow>
             (case parse response of
                Some v \<Rightarrow> (tr @ [JSONParse response], Inr v)
              | None \<Rightarrow>
                  (tr @ [JSONParse response, Invoked FallbackResources],
                   Inr (getFallbackResources topicTitle))))"

definition generateProjects ::
  "LLMService \<Rightarrow> transport \<Rightarrow> parser \<Rightarrow> string \<Rightarrow> string \<Rightarrow> string \<Rightarrow> outcome" where
  "generateProjects this post parse moduleTitle skill level =
     (let prompt = projectsPrompt moduleTitle skill level
      in case callLLM this post prompt of
           (tr, Inl e) \<Rightarrow> (tr, Inl e)
         | (tr, Inr response) \<Rightarrow>
             (case parse response of
                Some v \<Rightarrow> (tr @ [JSONParse response], Inr v)
              | None \<Rightarrow>
                  (tr @ [JSONParse response, Invoked FallbackProjects],
                   Inr (getFallbackProjects moduleTitle))))"

section \<open>Schemas\<close>

text \<open>
  The interfaces \<^verbatim>\<open>Subtopic\<close> and \<^verbatim>\<open>Topic\<close> of \<^verbatim>\<open>src/frontend/src/types/index.ts\<close>,
  as checks on a value: each declared property is present with its declared type.
\<close>

fun isString :: "jsval option \<Rightarrow> bool" where
  "isString (Some (JString s)) = True"
| "isString v = False"

fun isNumber :: "jsval option \<Rightarrow> bool" where
  "isNumber (Some (JNumber n)) = True"
| "isNumber v = False"

definition isSubtopic :: "jsval \<Rightarrow> bool" where
  "isSubtopic v =
     (isString (field ''id'' v) \<and> isString (field ''title'' v) \<and>
      isString (field ''description'' v) \<and> isNumber (field ''estimatedHours'' v))"

definition isTopic :: "jsval \<Rightarrow> bool" where
  "isTopic v =
     (isString (field ''id'' v) \<and> isString (field ''title'' v) \<and>
      isString (field ''description'' v) \<and>
      (case field ''subtopics'' v of Some (JArray ss) \<Rightarrow> list_all isSubtopic ss | _ \<Rightarrow> False) \<and>
      (case field ''difficulty'' v of
         Some (JString d) \<Rightarrow> d \<in> set [''beginner'', ''intermediate'', ''advanced'']
       | _ \<Rightarrow> False))"

section \<open>Reading a trace\<close>

fun isFallback :: "event \<Rightarrow> bool" where
  "isFallback (Invoked f) = True"
| "isFallback e = False"

fun isParse :: "event \<Rightarrow> bool" where
  "isParse (JSONParse s) = True"
| "isParse e = False"

definition fallbackInvoked :: "event list \<Rightarrow> bool" where
  "fallbackInvoked tr = list_ex isFallback tr"

section \<open>The five methods as one operation\<close>

text \<open>
  To speak about all five public methods at once, a call is named by the method and its
  arguments; \<open>generate\<close> runs the method called, \<open>promptOf\<close> is the prompt that method
  sends, and \<open>fallbackOf\<close> is the value of the fallback method in its \<^verbatim>\<open>catch\<close> clause.
\<close>

datatype request =
    Curriculum string string int "int option"
  | Lesson string string string
  | Quiz string string
  | Resources string string string
  | Projects string string string

fun generate :: "LLMService \<Rightarrow> transport \<Rightarrow> parser \<Rightarrow> request \<Rightarrow> outcome" where
  "generate this post parse (Curriculum skill level timePerWeek weeksArg) =
     generateCurriculum this post parse skill level timePerWeek weeksArg"
| "generate this post parse (Lesson subtopicTitle skill level) =
     generateLesson this post parse subtopicTitle skill level"
| "generate this post parse (Quiz lessonTitle content') =
     generateQuiz this post parse lessonTitle content'"
| "generate this post parse (Resources topicTitle skill level) =
     generateResources this post parse topicTitle skill level"
| "generate this post parse (Projects moduleTitle skill level) =
     generateProjects this post parse moduleTitle skill level"

fun promptOf :: "request \<Rightarrow> string" where
  "promptOf (Curriculum skill level timePerWeek weeksArg) =
     curriculumPrompt skill level timePerWeek (orDefault weeksArg 12)"
| "promptOf (Lesson subtopicTitle skill level) = lessonPrompt subtopicTitle skill level"
| "promptOf (Quiz lessonTitle content') = quizPrompt lessonTitle content'"
| "promptOf (Resources topicTitle skill level) = resourcesPrompt topicTitle skill level"
| "promptOf (Projects moduleTitle skill level) = projectsPrompt moduleTitle skill level"

fun fallbackOf :: "request \<Rightarrow> jsval" where
  "fallbackOf (Curriculum skill level timePerWeek weeksArg) =
     getFallbackCurriculum skill level (Some (orDefault weeksArg 12))"
| "fallbackOf (Lesson subtopicTitle skill level) = getFallbackLesson subtopicTitle"
| "fallbackOf (Quiz lessonTitle content') = getFallbackQuiz lessonTitle"
| "fallbackOf (Resources topicTitle skill level) = getFallbackResources topicTitle"
| "fallbackOf (Projects moduleTitle skill level) = getFallbackProjects moduleTitle"

fun fallbackMethod :: "request \<Rightarrow> fallback" where
  "fallbackMethod (Curriculum skill level timePerWeek weeksArg) = FallbackCurriculum"
| "fallbackMethod (Lesson subtopicTitle skill level) = FallbackLesson"
| "fallbackMethod (Quiz lessonTitle content') = FallbackQuiz"
| "fallbackMethod (Resources topicTitle skill level) = FallbackResources"
| "fallbackMethod (Projects moduleTitle skill level) = FallbackProjects"

section \<open>Sample collaborators\<close>

text \<open>
  Concrete stand-ins for the environment, the HTTP client and \<^verbatim>\<open>JSON.parse\<close>, at which
  the theorems below are instantiated: the service built from an empty environment, a
  provider that answers with the given completions (none at all for the empty list), a
  provider whose request is rejected, and a parser that accepts one text only.
\<close>

definition defaultService :: LLMService where
  "defaultService = fst (constructor Map.empty)"

definition replying :: "string list \<Rightarrow> transport" where
  "replying texts =
     (\<lambda>url body headers. Inr \<lparr> choices = map (\<lambda>text. \<lparr> message = \<lparr> content = text \<rparr> \<rparr>) texts \<rparr>)"

definition rejecting :: transport where
  "rejecting = (\<lambda>url body headers. Inl (AxiosError ''Network Error''))"

definition accepting :: "string \<Rightarrow> jsval \<Rightarrow> parser" where
  "accepting s v = (\<lambda>text. if text = s then Some v else None)"

section \<open>The loop and the provider call\<close>

text \<open>The loop of \<^verbatim>\<open>getFallbackCurriculum\<close> appends one plan for each week from \<open>i\<close> to \<open>weeks\<close>.\<close>

lemma roadmapLoop_eq:
  "roadmapLoop skill weeks i acc = acc @ map (weeklyPlan skill) [i..weeks]"
proof (induction skill weeks i acc rule: roadmapLoop.induct)
  case (1 skill weeks i acc)
  show ?case
  proof (cases "i \<le> weeks")
    case True
    then have "[i..weeks] = i # [i + 1..weeks]" by (simp add: upto_rec1)
    with True 1 show ?thesis by (simp add: roadmapLoop.simps [of skill weeks i])
  next
    case False
    then show ?thesis by (simp add: roadmapLoop.simps [of skill weeks i])
  qed
qed

lemma weeklyPlan_fields:
  "field ''week'' (weeklyPlan skill i) = Some (JNumber (of_int i))"
  "field ''topics'' (weeklyPlan skill i) = Some (JArray [JString ''topic-1''])"
  "field ''goals'' (weeklyPlan skill i) =
     Some (JArray [JString (''Week '' @ toString i @ '': Learn '' @ skill @ '' concepts'')])"
  by (simp_all add: weeklyPlan_def)

lemma upto_nth_from_1:
  assumes "1 \<le> i" and "i \<le> weeks"
  shows "[1..weeks] ! nat (i - 1) = i"
  using assms by (simp add: nth_upto)

text \<open>\<^verbatim>\<open>callLLM\<close> either returns the first completion, or throws its one error.\<close>

lemma callLLM_Inr:
  assumes "snd (callLLM this post prompt) = Inr text"
  shows "callLLM this post prompt =
           ([AxiosPost (apiUrl this) (requestBody this prompt) (requestHeaders this)], Inr text)"
  using assms by (auto simp: callLLM_def Let_def split: sum.splits list.splits)

lemma callLLM_rejected:
  assumes "post (apiUrl this) (requestBody this prompt) (requestHeaders this) = Inl err"
  shows "callLLM this post prompt =
           ([AxiosPost (apiUrl this) (requestBody this prompt) (requestHeaders this),
             ConsoleError ''LLM API Error:'' err],
            Inl (Error ''Failed to generate content''))"
  using assms by (simp add: callLLM_def Let_def)

lemma callLLM_Inl_iff:
  "snd (callLLM this post prompt) = Inl e \<longleftrightarrow>
     e = Error ''Failed to generate content'' \<and>
     (case post (apiUrl this) (requestBody this prompt) (requestHeaders this) of
        Inl err \<Rightarrow> True
      | Inr response \<Rightarrow> choices response = [])"
  by (auto simp: callLLM_def Let_def split: sum.splits list.splits)

lemma callLLM_replying:
  "callLLM this (replying (text # texts)) prompt =
     ([AxiosPost (apiUrl this) (requestBody this prompt) (requestHeaders this)], Inr text)"
  by (simp add: callLLM_def replying_def Let_def)

section \<open>The shared shape of the five methods\<close>

lemma generate_unfold:
  "generate this post parse req =
     (case callLLM this post (promptOf req) of
        (tr, Inl e) \<Rightarrow> (tr, Inl e)
      | (tr, Inr response) \<Rightarrow>
          (case parse response of
             Some v \<Rightarrow> (tr @ [JSONParse response], Inr v)
           | None \<Rightarrow>
               (tr @ [JSONParse response, Invoked (fallbackMethod req)], Inr (fallbackOf req))))"
  by (cases req)
     (simp_all add: generateCurriculum_def generateLesson_def generateQuiz_def
        generateResources_def generateProjects_def Let_def
        split: prod.splits sum.splits option.splits)

lemma generate_Inl:
  "snd (generate this post parse req) = Inl e \<longleftrightarrow> snd (callLLM this post (promptOf req)) = Inl e"
  by (simp add: generate_unfold split: prod.splits sum.splits option.splits)

lemma generateCurriculum_fallback:
  assumes "snd (callLLM this post (curriculumPrompt skill level timePerWeek weeks)) = Inr text"
    and "parse text = None"
  shows "snd (generateCurriculum this post parse skill level timePerWeek (Some weeks)) =
           Inr (getFallbackCurriculum skill level (Some weeks))"
  using assms(2)
  by (simp add: generateCurriculum_def orDefault_def callLLM_Inr [OF assms(1)])

lemma generateQuiz_fallback:
  assumes "snd (callLLM this post (quizPrompt lessonTitle content')) = Inr text"
    and "parse text = None"
  shows "snd (generateQuiz this post parse lessonTitle content') = Inr (getFallbackQuiz lessonTitle)"
  using assms(2) by (simp add: generateQuiz_def callLLM_Inr [OF assms(1)])

lemma generateResources_fallback:
  assumes "snd (callLLM this post (resourcesPrompt topicTitle skill level)) = Inr text"
    and "parse text = None"
  shows "snd (generateResources this post parse topicTitle skill level) =
           Inr (getFallbackResources topicTitle)"
  using assms(2) by (simp add: generateResources_def callLLM_Inr [OF assms(1)])

lemma generateProjects_fallback:
  assumes "snd (callLLM this post (projectsPrompt moduleTitle skill level)) = Inr text"
    and "parse text = None"
  shows "snd (generateProjects this post parse moduleTitle skill level) =
           Inr (getFallbackProjects moduleTitle)"
  using assms(2) by (simp add: generateProjects_def callLLM_Inr [OF assms(1)])

lemma sublist_length_le: "sublist xs ys \<Longrightarrow> length xs \<le> length ys"
  by (auto simp: sublist_def)

section \<open>Properties\<close>

subsection \<open>The fallback curriculum\<close>

text \<open>
  Claim C1. For every skill, every level and every \<open>weeks\<close> from 1 to 52, when the
  provider's completion does not parse, \<^verbatim>\<open>generateCurriculum\<close> returns an object whose
  \<^verbatim>\<open>modules\<close> is one module titled "\<open>skill\<close> Fundamentals" with one topic (id
  \<^verbatim>\<open>topic-1\<close>) that has one subtopic, and whose \<^verbatim>\<open>weeklyRoadmap\<close> has exactly \<open>weeks\<close>
  entries, numbered \<open>1..weeks\<close> in order, each listing that topic's id as its only topic and
  each with the one goal "Week \<open>i\<close>: Learn \<open>skill\<close> concepts".
\<close>

theorem curriculum_fallback_shape:
  assumes "1 \<le> weeks" and "weeks \<le> 52"
    and "snd (callLLM this post (curriculumPrompt skill level timePerWeek weeks)) = Inr text"
    and "parse text = None"
  shows "\<exists>m t s rm.
           snd (generateCurriculum this post parse skill level timePerWeek (Some weeks)) =
             Inr (JObject [(''modules'', JArray [m]), (''weeklyRoadmap'', JArray rm)]) \<and>
           field ''title'' m = Some (JString (skill @ '' Fundamentals'')) \<and>
           field ''topics'' m = Some (JArray [t]) \<and>
           field ''id'' t = Some (JString ''topic-1'') \<and>
           field ''subtopics'' t = Some (JArray [s]) \<and>
           length rm = nat weeks \<and>
           map (field ''week'') rm = map (\<lambda>i. Some (JNumber (of_int i))) [1..weeks] \<and>
           (\<forall>e \<in> set rm. field ''topics'' e = Some (JArray [JString ''topic-1''])) \<and>
           (\<forall>i \<in> {1..weeks}. field ''goals'' (rm ! nat (i - 1)) =
              Some (JArray [JString (''Week '' @ toString i @ '': Learn '' @ skill @ '' concepts'')]))"
proof -
  let ?rm = "map (weeklyPlan skill) [1..weeks]"
  have res: "snd (generateCurriculum this post parse skill level timePerWeek (Some weeks)) =
               Inr (getFallbackCurriculum skill level (Some weeks))"
    using assms(3,4) by (rule generateCurriculum_fallback)
  have len: "length ?rm = nat weeks" by simp
  have wk: "map (field ''week'') ?rm = map (\<lambda>i. Some (JNumber (of_int i))) [1..weeks]"
    by (simp add: weeklyPlan_fields comp_def)
  have tp: "\<forall>e \<in> set ?rm. field ''topics'' e = Some (JArray [JString ''topic-1''])"
    by (auto simp: weeklyPlan_fields)
  have gl: "\<forall>i \<in> {1..weeks}. field ''goals'' (?rm ! nat (i - 1)) =
              Some (JArray [JString (''Week '' @ toString i @ '': Learn '' @ skill @ '' concepts'')])"
  proof
    fix i assume "i \<in> {1..weeks}"
    then have i: "1 \<le> i" "i \<le> weeks" by simp_all
    then have "nat (i - 1) < length [1..weeks]" by simp
    then have "?rm ! nat (i - 1) = weeklyPlan skill ([1..weeks] ! nat (i - 1))"
      by (rule nth_map)
    with i show "field ''goals'' (?rm ! nat (i - 1)) =
              Some (JArray [JString (''Week '' @ toString i @ '': Learn '' @ skill @ '' concepts'')])"
      by (simp add: upto_nth_from_1 weeklyPlan_fields)
  qed
  have shape: "getFallbackCurriculum skill level (Some weeks) =
      JObject [(''modules'', JArray [JObject
               [(''id'', JString ''module-1''),
                (''title'', JString (skill @ '' Fundamentals'')),
                (''description'', JString (''Core concepts and basics of '' @ skill)),
                (''estimatedWeeks'', JNumber (of_int weeks)),
                (''topics'', JArray [JObject
                   [(''id'', JString ''topic-1''),
                    (''title'', JString ''Introduction''),
                    (''description'', JString (''Getting started with '' @ skill)),
                    (''difficulty'', JString level),
                    (''subtopics'', JArray [JObject
                       [(''id'', JString ''subtopic-1''),
                        (''title'', JString ''Overview''),
                        (''description'', JString (''What is '' @ skill @ ''?'')),
                        (''estimatedHours'', JNumber 2)]])]])]]),
            (''weeklyRoadmap'', JArray ?rm)]"
    by (simp add: getFallbackCurriculum_def orDefault_def roadmapLoop_eq)
  show ?thesis
    unfolding res shape
    apply (intro exI conjI)
            apply (rule refl)
           apply simp
          apply simp
         apply simp
        apply simp
       apply (rule len)
      apply (rule wk)
     apply (rule tp)
    apply (rule gl)
    done
qed

theorem curriculum_fallback_shape_witness:
  "(1::int) \<le> 12 \<and> (12::int) \<le> 52 \<and>
   snd (callLLM defaultService (replying [''Sure! Here is your plan:''])
          (curriculumPrompt ''Python'' ''beginner'' 5 12)) = Inr ''Sure! Here is your plan:'' \<and>
   accepting ''[]'' (JArray []) ''Sure! Here is your plan:'' = None \<and>
   (\<exists>m t s rm.
      snd (generateCurriculum defaultService (replying [''Sure! Here is your plan:''])
             (accepting ''[]'' (JArray [])) ''Python'' ''beginner'' 5 (Some 12)) =
        Inr (JObject [(''modules'', JArray [m]), (''weeklyRoadmap'', JArray rm)]) \<and>
      field ''title'' m = Some (JString ''Python Fundamentals'') \<and>
      field ''topics'' m = Some (JArray [t]) \<and>
      field ''id'' t = Some (JString ''topic-1'') \<and>
      field ''subtopics'' t = Some (JArray [s]) \<and>
      length rm = 12)"
proof -
  have h1: "(1::int) \<le> 12" and h2: "(12::int) \<le> 52" by simp_all
  have h3: "snd (callLLM defaultService (replying [''Sure! Here is your plan:''])
          (curriculumPrompt ''Python'' ''beginner'' 5 12)) = Inr ''Sure! Here is your plan:''"
    by (simp add: callLLM_replying)
  have h4: "accepting ''[]'' (JArray []) ''Sure! Here is your plan:'' = None"
    by (simp add: accepting_def)
  from curriculum_fallback_shape [of 12 defaultService "replying [''Sure! Here is your plan:'']"
      "''Python''" "''beginner''" 5 "''Sure! Here is your plan:''" "accepting ''[]'' (JArray [])",
      OF h1 h2 h3 h4]
  obtain m t s rm where
    "snd (generateCurriculum defaultService (replying [''Sure! Here is your plan:''])
             (accepting ''[]'' (JArray [])) ''Python'' ''beginner'' 5 (Some 12)) =
        Inr (JObject [(''modules'', JArray [m]), (''weeklyRoadmap'', JArray rm)])"
    "field ''title'' m = Some (JString (''Python'' @ '' Fundamentals''))"
    "field ''topics'' m = Some (JArray [t])"
    "field ''id'' t = Some (JString ''topic-1'')"
    "field ''subtopics'' t = Some (JArray [s])"
    "length rm = nat 12"
    by blast
  then have "\<exists>m t s rm.
      snd (generateCurriculum defaultService (replying [''Sure! Here is your plan:''])
             (accepting ''[]'' (JArray [])) ''Python'' ''beginner'' 5 (Some 12)) =
        Inr (JObject [(''modules'', JArray [m]), (''weeklyRoadmap'', JArray rm)]) \<and>
      field ''title'' m = Some (JString ''Python Fundamentals'') \<and>
      field ''topics'' m = Some (JArray [t]) \<and>
      field ''id'' t = Some (JString ''topic-1'') \<and>
      field ''subtopics'' t = Some (JArray [s]) \<and>
      length rm = 12"
    by simp
  with h1 h2 h3 h4 show ?thesis by blast
qed

text \<open>
  Claim C9. For every skill, level and week count, the single topic of the fallback
  curriculum carries the caller's \<open>level\<close> unchanged as its \<^verbatim>\<open>difficulty\<close>; nothing checks
  it, so the topic matches the \<^verbatim>\<open>Topic\<close> interface exactly when \<open>level\<close> is one of
  \<^verbatim>\<open>beginner\<close>, \<^verbatim>\<open>intermediate\<close>, \<^verbatim>\<open>advanced\<close>.
\<close>

theorem curriculum_fallback_difficulty:
  "\<exists>m t.
     field ''modules'' (getFallbackCurriculum skill level weeksArg) = Some (JArray [m]) \<and>
     field ''topics'' m = Some (JArray [t]) \<and>
     field ''difficulty'' t = Some (JString level) \<and>
     (isTopic t \<longleftrightarrow> level \<in> {''beginner'', ''intermediate'', ''advanced''})"
  by (simp add: getFallbackCurriculum_def Let_def isTopic_def isSubtopic_def)

subsection \<open>Parse failure, provider failure, parse success\<close>

text \<open>
  Claim C2. For each of the five methods and every input: when \<^verbatim>\<open>callLLM\<close> returns a
  text and \<^verbatim>\<open>JSON.parse\<close> throws on it, the method returns the value of its fallback
  method; it does not throw.
\<close>

theorem parse_failure_yields_fallback:
  assumes "snd (callLLM this post (promptOf req)) = Inr text"
    and "parse text = None"
  shows "snd (generate this post parse req) = Inr (fallbackOf req)"
  using assms(2) by (simp add: generate_unfold callLLM_Inr [OF assms(1)])

theorem parse_failure_yields_fallback_witness:
  "snd (callLLM defaultService (replying [''<html>Bad Gateway</html>''])
          (promptOf (Lesson ''Closures'' ''JavaScript'' ''intermediate''))) =
     Inr ''<html>Bad Gateway</html>'' \<and>
   accepting ''{}'' (JObject []) ''<html>Bad Gateway</html>'' = None \<and>
   snd (generate defaultService (replying [''<html>Bad Gateway</html>''])
          (accepting ''{}'' (JObject [])) (Lesson ''Closures'' ''JavaScript'' ''intermediate'')) =
     Inr (getFallbackLesson ''Closures'')"
proof -
  have h1: "snd (callLLM defaultService (replying [''<html>Bad Gateway</html>''])
          (promptOf (Lesson ''Closures'' ''JavaScript'' ''intermediate''))) =
     Inr ''<html>Bad Gateway</html>''"
    by (simp only: callLLM_replying snd_conv)
  have h2: "accepting ''{}'' (JObject []) ''<html>Bad Gateway</html>'' = None"
    by (simp add: accepting_def)
  have "snd (generate defaultService (replying [''<html>Bad Gateway</html>''])
          (accepting ''{}'' (JObject [])) (Lesson ''Closures'' ''JavaScript'' ''intermediate'')) =
     Inr (fallbackOf (Lesson ''Closures'' ''JavaScript'' ''intermediate''))"
    using h1 h2 by (rule parse_failure_yields_fallback)
  with h1 h2 show ?thesis by simp
qed

text \<open>
  Claim C3. For each of the five methods and every input: when the HTTP request is
  rejected, the method throws \<^verbatim>\<open>Error('Failed to generate content')\<close> (the failure the
  specification calls GenerationUnavailable) after the request and the \<^verbatim>\<open>console.error\<close>
  only, so without parsing anything, without calling a fallback method and without a
  value. A method throws only this error and only when \<^verbatim>\<open>callLLM\<close> failed, which is when
  the request was rejected or the response carried no choice.
\<close>

theorem gateway_failure_raises:
  "(post (apiUrl this) (requestBody this (promptOf req)) (requestHeaders this) = Inl err \<longrightarrow>
      generate this post parse req =
        ([AxiosPost (apiUrl this) (requestBody this (promptOf req)) (requestHeaders this),
          ConsoleError ''LLM API Error:'' err],
         Inl (Error ''Failed to generate content'')) \<and>
      \<not> fallbackInvoked (fst (generate this post parse req))) \<and>
   (snd (generate this post parse req) = Inl e \<longleftrightarrow>
      e = Error ''Failed to generate content'' \<and>
      (case post (apiUrl this) (requestBody this (promptOf req)) (requestHeaders this) of
         Inl err \<Rightarrow> True
       | Inr response \<Rightarrow> choices response = []))"
proof -
  have "generate this post parse req =
        ([AxiosPost (apiUrl this) (requestBody this (promptOf req)) (requestHeaders this),
          ConsoleError ''LLM API Error:'' err],
         Inl (Error ''Failed to generate content'')) \<and>
      \<not> fallbackInvoked (fst (generate this post parse req))"
    if "post (apiUrl this) (requestBody this (promptOf req)) (requestHeaders this) = Inl err"
    using callLLM_rejected [of post this "promptOf req" err] that
    by (simp add: generate_unfold fallbackInvoked_def)
  moreover have "snd (generate this post parse req) = Inl e \<longleftrightarrow>
      e = Error ''Failed to generate content'' \<and>
      (case post (apiUrl this) (requestBody this (promptOf req)) (requestHeaders this) of
         Inl err \<Rightarrow> True
       | Inr response \<Rightarrow> choices response = [])"
    by (simp only: generate_Inl callLLM_Inl_iff)
  ultimately show ?thesis by blast
qed

theorem gateway_failure_raises_witness:
  "rejecting (apiUrl defaultService)
     (requestBody defaultService (promptOf (Resources ''Recursion'' ''Haskell'' ''advanced'')))
     (requestHeaders defaultService) = Inl (AxiosError ''Network Error'') \<and>
   snd (generate defaultService rejecting (accepting ''[]'' (JArray []))
          (Resources ''Recursion'' ''Haskell'' ''advanced'')) =
     Inl (Error ''Failed to generate content'') \<and>
   \<not> fallbackInvoked (fst (generate defaultService rejecting (accepting ''[]'' (JArray []))
          (Resources ''Recursion'' ''Haskell'' ''advanced'')))"
proof -
  have h: "rejecting (apiUrl defaultService)
     (requestBody defaultService (promptOf (Resources ''Recursion'' ''Haskell'' ''advanced'')))
     (requestHeaders defaultService) = Inl (AxiosError ''Network Error'')"
    by (simp add: rejecting_def)
  from gateway_failure_raises [of rejecting defaultService
      "Resources ''Recursion'' ''Haskell'' ''advanced''" "AxiosError ''Network Error''"
      "accepting ''[]'' (JArray [])"] h
  have "generate defaultService rejecting (accepting ''[]'' (JArray []))
          (Resources ''Recursion'' ''Haskell'' ''advanced'') =
        ([AxiosPost (apiUrl defaultService)
            (requestBody defaultService (promptOf (Resources ''Recursion'' ''Haskell'' ''advanced'')))
            (requestHeaders defaultService),
          ConsoleError ''LLM API Error:'' (AxiosError ''Network Error'')],
         Inl (Error ''Failed to generate content''))"
    and "\<not> fallbackInvoked (fst (generate defaultService rejecting (accepting ''[]'' (JArray []))
          (Resources ''Recursion'' ''Haskell'' ''advanced'')))"
    by blast+
  with h show ?thesis by simp
qed

text \<open>
  Claim C4. For each of the five methods and every input: when \<^verbatim>\<open>callLLM\<close> returns a
  text that \<^verbatim>\<open>JSON.parse\<close> accepts, the method returns the parsed value as it is, whatever
  its shape, and calls no fallback method.
\<close>

theorem valid_json_passes_through:
  assumes "snd (callLLM this post (promptOf req)) = Inr text"
    and "parse text = Some v"
  shows "snd (generate this post parse req) = Inr v \<and>
         \<not> fallbackInvoked (fst (generate this post parse req))"
  using assms(2) by (simp add: generate_unfold callLLM_Inr [OF assms(1)] fallbackInvoked_def)

theorem valid_json_passes_through_witness:
  "snd (callLLM defaultService (replying [''{\"answer\": 42}''])
          (promptOf (Quiz ''Loops'' ''A loop repeats a block.''))) = Inr ''{\"answer\": 42}'' \<and>
   accepting ''{\"answer\": 42}'' (JObject [(''answer'', JNumber 42)]) ''{\"answer\": 42}'' =
     Some (JObject [(''answer'', JNumber 42)]) \<and>
   snd (generate defaultService (replying [''{\"answer\": 42}''])
          (accepting ''{\"answer\": 42}'' (JObject [(''answer'', JNumber 42)]))
          (Quiz ''Loops'' ''A loop repeats a block.'')) = Inr (JObject [(''answer'', JNumber 42)]) \<and>
   \<not> fallbackInvoked (fst (generate defaultService (replying [''{\"answer\": 42}''])
          (accepting ''{\"answer\": 42}'' (JObject [(''answer'', JNumber 42)]))
          (Quiz ''Loops'' ''A loop repeats a block.'')))"
proof -
  have h1: "snd (callLLM defaultService (replying [''{\"answer\": 42}''])
          (promptOf (Quiz ''Loops'' ''A loop repeats a block.''))) = Inr ''{\"answer\": 42}''"
    by (simp only: callLLM_replying snd_conv)
  have h2: "accepting ''{\"answer\": 42}'' (JObject [(''answer'', JNumber 42)]) ''{\"answer\": 42}'' =
     Some (JObject [(''answer'', JNumber 42)])"
    by (simp add: accepting_def)
  show ?thesis
    using h1 h2 valid_json_passes_through [of defaultService "replying [''{\"answer\": 42}'']"
      "Quiz ''Loops'' ''A loop repeats a block.''" "''{\"answer\": 42}''"
      "accepting ''{\"answer\": 42}'' (JObject [(''answer'', JNumber 42)])"
      "JObject [(''answer'', JNumber 42)]", OF h1 h2]
    by blast
qed

text \<open>
  Claim C7. For each of the five methods: two calls with the same arguments, to which
  the provider returns the same text, return the same result, whatever else differs
  between the two providers or the two configurations.
\<close>

theorem generate_deterministic:
  assumes "snd (callLLM this1 post1 (promptOf req)) = Inr text"
    and "snd (callLLM this2 post2 (promptOf req)) = Inr text"
  shows "snd (generate this1 post1 parse req) = snd (generate this2 post2 parse req)"
  by (simp add: generate_unfold callLLM_Inr [OF assms(1)] callLLM_Inr [OF assms(2)]
        split: option.splits)

theorem generate_deterministic_witness:
  "snd (callLLM defaultService (replying [''[]''])
          (promptOf (Projects ''Sorting'' ''Rust'' ''beginner''))) = Inr ''[]'' \<and>
   snd (callLLM (fst (constructor [''AI_MODEL_NAME'' \<mapsto> ''gpt-4''])) (replying [''[]'', ''[1]''])
          (promptOf (Projects ''Sorting'' ''Rust'' ''beginner''))) = Inr ''[]'' \<and>
   snd (generate defaultService (replying [''[]'']) (accepting ''[]'' (JArray []))
          (Projects ''Sorting'' ''Rust'' ''beginner'')) =
   snd (generate (fst (constructor [''AI_MODEL_NAME'' \<mapsto> ''gpt-4''])) (replying [''[]'', ''[1]''])
          (accepting ''[]'' (JArray [])) (Projects ''Sorting'' ''Rust'' ''beginner''))"
proof -
  have h1: "snd (callLLM defaultService (replying [''[]''])
          (promptOf (Projects ''Sorting'' ''Rust'' ''beginner''))) = Inr ''[]''"
    by (simp only: callLLM_replying snd_conv)
  have h2: "snd (callLLM (fst (constructor [''AI_MODEL_NAME'' \<mapsto> ''gpt-4'']))
          (replying [''[]'', ''[1]''])
          (promptOf (Projects ''Sorting'' ''Rust'' ''beginner''))) = Inr ''[]''"
    by (simp only: callLLM_replying snd_conv)
  show ?thesis
    using h1 h2 generate_deterministic [where parse = "accepting ''[]'' (JArray [])", OF h1 h2]
    by blast
qed

subsection \<open>The fallback quiz, resources and projects\<close>

text \<open>
  Claim C5. For every lesson title, the value \<^verbatim>\<open>generateQuiz\<close> returns on a parse failure
  is a list of exactly one question, with exactly four options and a \<^verbatim>\<open>correctAnswer\<close>
  among 0, 1, 2, 3.
\<close>

theorem quiz_fallback_shape:
  assumes "snd (callLLM this post (quizPrompt lessonTitle content')) = Inr text"
    and "parse text = None"
  shows "\<exists>q opts n.
           snd (generateQuiz this post parse lessonTitle content') = Inr (JArray [q]) \<and>
           field ''options'' q = Some (JArray opts) \<and> length opts = 4 \<and>
           field ''correctAnswer'' q = Some (JNumber n) \<and> n \<in> {0, 1, 2, 3}"
proof -
  have "snd (generateQuiz this post parse lessonTitle content') = Inr (getFallbackQuiz lessonTitle)"
    using assms by (rule generateQuiz_fallback)
  then show ?thesis by (simp add: getFallbackQuiz_def)
qed

theorem quiz_fallback_shape_witness:
  "snd (callLLM defaultService (replying [''I am not sure.''])
          (quizPrompt ''Loops'' ''A loop repeats a block.'')) = Inr ''I am not sure.'' \<and>
   accepting ''[]'' (JArray []) ''I am not sure.'' = None \<and>
   (\<exists>q opts n.
      snd (generateQuiz defaultService (replying [''I am not sure.''])
             (accepting ''[]'' (JArray [])) ''Loops'' ''A loop repeats a block.'') =
        Inr (JArray [q]) \<and>
      field ''options'' q = Some (JArray opts) \<and> length opts = 4 \<and>
      field ''correctAnswer'' q = Some (JNumber n) \<and> n \<in> {0, 1, 2, 3})"
proof -
  have h1: "snd (callLLM defaultService (replying [''I am not sure.''])
          (quizPrompt ''Loops'' ''A loop repeats a block.'')) = Inr ''I am not sure.''"
    by (simp only: callLLM_replying snd_conv)
  have h2: "accepting ''[]'' (JArray []) ''I am not sure.'' = None"
    by (simp add: accepting_def)
  show ?thesis
    using h1 h2 quiz_fallback_shape [of defaultService "replying [''I am not sure.'']" "''Loops''"
      "''A loop repeats a block.''" "''I am not sure.''" "accepting ''[]'' (JArray [])", OF h1 h2]
    by blast
qed

text \<open>
  Claim C6. For every topic title, the value \<^verbatim>\<open>generateResources\<close> returns on a parse
  failure is a list of one resource of type \<^verbatim>\<open>article\<close> whose \<^verbatim>\<open>url\<close> is exactly
  \<^verbatim>\<open>#\<close>; no \<^verbatim>\<open>example.com\<close> occurs in it.
\<close>

theorem resources_fallback_url:
  assumes "snd (callLLM this post (resourcesPrompt topicTitle skill level)) = Inr text"
    and "parse text = None"
  shows "\<exists>r u.
           snd (generateResources this post parse topicTitle skill level) = Inr (JArray [r]) \<and>
           field ''type'' r = Some (JString ''article'') \<and>
           field ''url'' r = Some (JString u) \<and> u = ''#'' \<and>
           \<not> sublist ''example.com'' u"
proof -
  have "snd (generateResources this post parse topicTitle skill level) =
          Inr (getFallbackResources topicTitle)"
    using assms by (rule generateResources_fallback)
  moreover have "\<not> sublist ''example.com'' ''#''"
    using sublist_length_le [of "''example.com''" "''#''"] by auto
  ultimately show ?thesis by (simp add: getFallbackResources_def)
qed

theorem resources_fallback_url_witness:
  "snd (callLLM defaultService (replying [''Here are some links''])
          (resourcesPrompt ''Recursion'' ''Haskell'' ''advanced'')) = Inr ''Here are some links'' \<and>
   accepting ''[]'' (JArray []) ''Here are some links'' = None \<and>
   (\<exists>r u.
      snd (generateResources defaultService (replying [''Here are some links''])
             (accepting ''[]'' (JArray [])) ''Recursion'' ''Haskell'' ''advanced'') =
        Inr (JArray [r]) \<and>
      field ''type'' r = Some (JString ''article'') \<and>
      field ''url'' r = Some (JString u) \<and> u = ''#'' \<and>
      \<not> sublist ''example.com'' u)"
proof -
  have h1: "snd (callLLM defaultService (replying [''Here are some links''])
          (resourcesPrompt ''Recursion'' ''Haskell'' ''advanced'')) = Inr ''Here are some links''"
    by (simp only: callLLM_replying snd_conv)
  have h2: "accepting ''[]'' (JArray []) ''Here are some links'' = None"
    by (simp add: accepting_def)
  show ?thesis
    using h1 h2 resources_fallback_url [of defaultService "replying [''Here are some links'']"
      "''Recursion''" "''Haskell''" "''advanced''" "''Here are some links''"
      "accepting ''[]'' (JArray [])", OF h1 h2]
    by blast
qed

text \<open>
  Claim C10. For every module title, skill and level, the value \<^verbatim>\<open>generateProjects\<close>
  returns on a parse failure is a list of one project whose \<^verbatim>\<open>difficulty\<close> is
  \<^verbatim>\<open>beginner\<close>; it is the same value for any two levels.
\<close>

theorem projects_fallback_difficulty:
  assumes "snd (callLLM this post (projectsPrompt moduleTitle skill level)) = Inr text"
    and "parse text = None"
    and "snd (callLLM this post' (projectsPrompt moduleTitle skill level')) = Inr text'"
    and "parse' text' = None"
  shows "\<exists>p.
           snd (generateProjects this post parse moduleTitle skill level) = Inr (JArray [p]) \<and>
           snd (generateProjects this post' parse' moduleTitle skill level') = Inr (JArray [p]) \<and>
           field ''difficulty'' p = Some (JString ''beginner'')"
proof -
  have "snd (generateProjects this post parse moduleTitle skill level) =
          Inr (getFallbackProjects moduleTitle)"
    using assms(1,2) by (rule generateProjects_fallback)
  moreover have "snd (generateProjects this post' parse' moduleTitle skill level') =
          Inr (getFallbackProjects moduleTitle)"
    using assms(3,4) by (rule generateProjects_fallback)
  ultimately show ?thesis by (simp add: getFallbackProjects_def)
qed

theorem projects_fallback_difficulty_witness:
  "snd (callLLM defaultService (replying [''no ideas''])
          (projectsPrompt ''Sorting'' ''Rust'' ''beginner'')) = Inr ''no ideas'' \<and>
   accepting ''[]'' (JArray []) ''no ideas'' = None \<and>
   snd (callLLM defaultService (replying [''none'', ''[]''])
          (projectsPrompt ''Sorting'' ''Rust'' ''advanced'')) = Inr ''none'' \<and>
   accepting ''{}'' (JObject []) ''none'' = None \<and>
   (\<exists>p.
      snd (generateProjects defaultService (replying [''no ideas''])
             (accepting ''[]'' (JArray [])) ''Sorting'' ''Rust'' ''beginner'') = Inr (JArray [p]) \<and>
      snd (generateProjects defaultService (replying [''none'', ''[]''])
             (accepting ''{}'' (JObject [])) ''Sorting'' ''Rust'' ''advanced'') = Inr (JArray [p]) \<and>
      field ''difficulty'' p = Some (JString ''beginner''))"
proof -
  have h1: "snd (callLLM defaultService (replying [''no ideas''])
          (projectsPrompt ''Sorting'' ''Rust'' ''beginner'')) = Inr ''no ideas''"
    by (simp only: callLLM_replying snd_conv)
  have h2: "accepting ''[]'' (JArray []) ''no ideas'' = None"
    by (simp add: accepting_def)
  have h3: "snd (callLLM defaultService (replying [''none'', ''[]''])
          (projectsPrompt ''Sorting'' ''Rust'' ''advanced'')) = Inr ''none''"
    by (simp only: callLLM_replying snd_conv)
  have h4: "accepting ''{}'' (JObject []) ''none'' = None"
    by (simp add: accepting_def)
  show ?thesis
    using h1 h2 h3 h4 projects_fallback_difficulty [of defaultService "replying [''no ideas'']"
      "''Sorting''" "''Rust''" "''beginner''" "''no ideas''" "accepting ''[]'' (JArray [])"
      "replying [''none'', ''[]'']" "''advanced''" "''none''" "accepting ''{}'' (JObject [])",
      OF h1 h2 h3 h4]
    by blast
qed

subsection \<open>The record logged at construction\<close>

text \<open>
  Claim C8, as the code has it. The object the constructor logs holds the credential
  itself in its field \<^verbatim>\<open>KEY\<close>. For two credentials, the rest of the environment being
  equal, the fields \<^verbatim>\<open>URL\<close> and \<^verbatim>\<open>MODEL\<close> are the same, and the logged objects are equal
  only if the credentials are.
\<close>

theorem constructor_log_contents:
  "field ''KEY'' (snd (constructor (env(''AI_MODEL_API_KEY'' \<mapsto> k)))) = Some (JString k) \<and>
   field ''URL'' (snd (constructor (env(''AI_MODEL_API_KEY'' \<mapsto> k)))) =
     field ''URL'' (snd (constructor (env(''AI_MODEL_API_KEY'' \<mapsto> k')))) \<and>
   field ''MODEL'' (snd (constructor (env(''AI_MODEL_API_KEY'' \<mapsto> k)))) =
     field ''MODEL'' (snd (constructor (env(''AI_MODEL_API_KEY'' \<mapsto> k')))) \<and>
   (snd (constructor (env(''AI_MODEL_API_KEY'' \<mapsto> k))) =
      snd (constructor (env(''AI_MODEL_API_KEY'' \<mapsto> k'))) \<longleftrightarrow> k = k')"
  by (auto simp: constructor_def orElse_def Let_def)

text \<open>Two credentials, nothing else set: the logged objects differ.\<close>

theorem constructor_log_depends_on_key:
  "snd (constructor [''AI_MODEL_API_KEY'' \<mapsto> ''sk-1'']) \<noteq>
   snd (constructor [''AI_MODEL_API_KEY'' \<mapsto> ''sk-2''])"
  by (simp add: constructor_def orElse_def Let_def)

end
